theory Spec2Isabelle
  imports Complex_Main
begin

section \<open>Weather poller: data model\<close>

text \<open>
  The module \<open>core/weather.py\<close> has three functions: \<open>weather\<close> (the poller),
  \<open>fetch_api\<close> (the fetcher with its retry loop) and \<open>print_weather\<close> (the presenter).
  Each is embedded below as a function on an explicit program state.

  Strings are \<open>string\<close>. The source's Russian message texts are not spelled out:
  every message the program builds is a constructor of \<open>message\<close> or \<open>line\<close> that
  carries the values interpolated into it.
\<close>

subsection \<open>Parsed JSON\<close>

text \<open>
  The value \<open>response.json()\<close> returns. A Python \<open>dict\<close> is an association list read
  with \<open>map_of\<close>; Python's \<open>None\<close> is \<open>JNull\<close>.
\<close>

datatype json =
    JNull
  | JBool bool
  | JInt int
  | JFloat real
  | JStr string
  | JArr "json list"
  | JObj "(string \<times> json) list"

subsection \<open>Exceptions\<close>

text \<open>
  \<open>NoCityData c\<close> is the f-string of line 42 with \<open>c\<close> interpolated, \<open>BadPayload\<close> the
  literal of line 123, \<open>NoWeatherData\<close> the literal of line 104, \<open>MissingKey k\<close> the
  argument of the \<open>KeyError\<close> that a \<open>dict\<close> subscript raises.
\<close>

datatype message =
    NoCityData string
  | BadPayload
  | NoWeatherData
  | MissingKey string

text \<open>
  The exception classes that can leave a function of the module. \<open>HTTPError\<close> carries
  the text the HTTP library gives it. \<open>TypeError\<close> and \<open>AttributeError\<close> are what Python
  raises when a value that is not a \<open>dict\<close> is subscripted with a string or asked for
  \<open>.get\<close>.
\<close>

datatype exn =
    KeyError message
  | ValueError message
  | HTTPError string
  | TypeError
  | AttributeError

subsection \<open>The HTTP collaborator\<close>

text \<open>
  A response object as far as \<open>fetch_api\<close> uses it: \<open>raise_for_status()\<close> raises an
  \<open>HTTPStatusError\<close> (a subclass of \<open>HTTPError\<close>) with the given text when \<open>status_error\<close>
  is \<open>Some\<close>; \<open>json()\<close> raises \<open>JSONDecodeError\<close> with the given \<open>msg\<close> when \<open>body\<close> is
  \<open>Inl\<close>, and returns the parsed value otherwise.
\<close>

record response =
  status_error :: "string option"
  body :: "string + json"

text \<open>
  The network is a parameter of the model: \<open>net n\<close> is what the \<open>n\<close>-th call of
  \<open>client.get\<close> does (counting from 0). \<open>Inl e\<close>: the call itself raises an
  \<open>HTTPError\<close> with text \<open>e\<close> (no connection, timeout); \<open>Inr r\<close>: it returns \<open>r\<close>.
\<close>

type_synonym net = "nat \<Rightarrow> string + response"

subsection \<open>Observable effects\<close>

record params =
  latitude :: real
  longitude :: real
  current :: string

text \<open>
  The lines the program prints: \<open>ErrorLine\<close> is the line of lines 97 and 99,
  \<open>Header\<close> the line of line 129, \<open>MetricLine title value unit\<close> the line of lines
  134 to 136, \<open>MissingLine key\<close> the line of line 138.
\<close>

datatype line =
    ErrorLine string
  | Header string
  | MetricLine string json json
  | MissingLine string

datatype event =
    Request params
  | Print line
  | Sleep int

text \<open>
  The state: how many times \<open>client.get\<close> has been called, and everything the program
  has done so far, in order.
\<close>

record state =
  calls :: nat
  trace :: "event list"

definition init :: state where
  "init = \<lparr>calls = 0, trace = []\<rparr>"

definition emit :: "event \<Rightarrow> state \<Rightarrow> state" where
  "emit e st = st\<lparr>trace := trace st @ [e]\<rparr>"

definition client_get :: "net \<Rightarrow> params \<Rightarrow> state \<Rightarrow> (string + response) \<times> state" where
  "client_get net p st = (net (calls st), emit (Request p) (st\<lparr>calls := Suc (calls st)\<rparr>))"

section \<open>Built-ins of Python the module uses\<close>

text \<open>
  \<open>str.lower\<close> and \<open>str.capitalize\<close>, on the ASCII letters; every other character is
  left as it is. No proof below looks inside them except at concrete inputs.
\<close>

definition lower_char :: "char \<Rightarrow> char" where
  "lower_char c =
     (let n = (of_char c :: nat) in if 65 \<le> n \<and> n \<le> 90 then char_of (n + 32) else c)"

definition upper_char :: "char \<Rightarrow> char" where
  "upper_char c =
     (let n = (of_char c :: nat) in if 97 \<le> n \<and> n \<le> 122 then char_of (n - 32) else c)"

definition lower :: "string \<Rightarrow> string" where
  "lower s = map lower_char s"

fun capitalize :: "string \<Rightarrow> string" where
  "capitalize [] = []"
| "capitalize (c # cs) = upper_char c # map lower_char cs"

text \<open>\<open>sep.join(xs)\<close>.\<close>

fun join :: "string \<Rightarrow> string list \<Rightarrow> string" where
  "join sep [] = []"
| "join sep [x] = x"
| "join sep (x # y # ys) = x @ sep @ join sep (y # ys)"

text \<open>\<open>d.get(k)\<close> on a \<open>dict\<close>: the value, or \<open>None\<close> when the key is absent.\<close>

definition dict_get :: "(string \<times> json) list \<Rightarrow> string \<Rightarrow> json" where
  "dict_get d k = (case map_of d k of None \<Rightarrow> JNull | Some v \<Rightarrow> v)"

text \<open>
  \<open>v.get(k)\<close> on any parsed value: only a \<open>dict\<close> has the method.
\<close>

fun get :: "json \<Rightarrow> string \<Rightarrow> exn + json" where
  "get (JObj d) k = Inr (dict_get d k)"
| "get v k = Inl AttributeError"

text \<open>
  \<open>v[k]\<close> with a string \<open>k\<close>: a \<open>dict\<close> raises \<open>KeyError\<close> when the key is absent;
  a list, a string, a number, a boolean and \<open>None\<close> raise \<open>TypeError\<close>.
\<close>

fun subscript :: "json \<Rightarrow> string \<Rightarrow> exn + json" where
  "subscript (JObj d) k =
     (case map_of d k of None \<Rightarrow> Inl (KeyError (MissingKey k)) | Some v \<Rightarrow> Inr v)"
| "subscript v k = Inl TypeError"

section \<open>The module\<close>

definition CITY_COORD :: "(string \<times> real \<times> real) list" where
  "CITY_COORD = [(''moscow'', (55.751244, 37.618423))]"

text \<open>
  The default metrics. The display labels are Russian words in the source (temperature,
  humidity, pressure); they are transliterated here.
\<close>

definition PARAM_CURRENT_DEFAULT :: "(string \<times> string) list" where
  "PARAM_CURRENT_DEFAULT =
     [(''temperature_2m'', ''temperatura''),
      (''relative_humidity_2m'', ''vlazhnost''),
      (''pressure_msl'', ''davlenie'')]"

subsection \<open>fetch_api\<close>

text \<open>
  The loop of lines 84 to 102. The call of \<open>client.get\<close> (line 89) stands before the
  \<open>try\<close>, so an exception it raises leaves the function. Inside the \<open>try\<close>,
  \<open>raise_for_status\<close> and \<open>json\<close> run in this order; both handlers print an error line,
  and lines 101 and 102 then sleep and count the attempt.
\<close>

function fetch_loop :: "net \<Rightarrow> params \<Rightarrow> nat \<Rightarrow> state \<Rightarrow> (exn + json) \<times> state" where
  "fetch_loop net p repeat_fetch st =
     (if repeat_fetch < 5 then
        (case client_get net p st of
           (Inl e, st1) \<Rightarrow> (Inl (HTTPError e), st1)
         | (Inr r, st1) \<Rightarrow>
             (case status_error r of
                Some e \<Rightarrow>
                  fetch_loop net p (repeat_fetch + 1)
                    (emit (Sleep 3) (emit (Print (ErrorLine e)) st1))
              | None \<Rightarrow>
                  (case body r of
                     Inr data \<Rightarrow> (Inr data, st1)
                   | Inl msg \<Rightarrow>
                       fetch_loop net p (repeat_fetch + 1)
                         (emit (Sleep 3) (emit (Print (ErrorLine msg)) st1)))))
      else (Inl (ValueError NoWeatherData), st))"
  by pat_completeness auto
termination
  by (relation "measure (\<lambda>(net, p, repeat_fetch, st). 5 - repeat_fetch)") auto

declare fetch_loop.simps [simp del]

definition fetch_api ::
    "net \<Rightarrow> real \<times> real \<Rightarrow> (string \<times> string) list \<Rightarrow> state \<Rightarrow> (exn + json) \<times> state" where
  "fetch_api net city_coord param_current st =
     fetch_loop net
       \<lparr>latitude = fst city_coord, longitude = snd city_coord,
        current = join '','' (map fst param_current)\<rparr>
       0 st"

subsection \<open>print_weather\<close>

text \<open>
  The expression printed at lines 134 to 136, evaluated left to right:
  \<open>param_title.capitalize()\<close>, \<open>data_weather[current][param_key]\<close>,
  \<open>data_weather[units][param_key]\<close>. Nothing is printed when a subscript raises.
\<close>

definition metric_line :: "json \<Rightarrow> string \<Rightarrow> string \<Rightarrow> exn + line" where
  "metric_line data_weather param_key param_title =
     (case subscript data_weather ''current'' of
        Inl e \<Rightarrow> Inl e
      | Inr c \<Rightarrow>
          (case subscript c param_key of
             Inl e \<Rightarrow> Inl e
           | Inr v \<Rightarrow>
               (case subscript data_weather ''current_units'' of
                  Inl e \<Rightarrow> Inl e
                | Inr us \<Rightarrow>
                    (case subscript us param_key of
                       Inl e \<Rightarrow> Inl e
                     | Inr u \<Rightarrow> Inr (MetricLine (capitalize param_title) v u)))))"

text \<open>
  The loop of lines 130 to 138: \<open>except KeyError\<close> catches a \<open>KeyError\<close> and prints the
  line of line 138; any other exception leaves the function.
\<close>

fun print_params :: "json \<Rightarrow> (string \<times> string) list \<Rightarrow> state \<Rightarrow> (exn + unit) \<times> state" where
  "print_params data_weather [] st = (Inr (), st)"
| "print_params data_weather ((param_key, param_title) # rest) st =
     (case metric_line data_weather param_key param_title of
        Inr l \<Rightarrow> print_params data_weather rest (emit (Print l) st)
      | Inl (KeyError m) \<Rightarrow>
          print_params data_weather rest (emit (Print (MissingLine param_key)) st)
      | Inl e \<Rightarrow> (Inl e, st))"

text \<open>
  Line 122 asks \<open>.get\<close> for both sections and raises when either is \<open>None\<close>. The reads
  of lines 125 and 126 bind two variables the rest does not use, and cannot raise after
  that check; line 129 prints the header.
\<close>

definition print_weather ::
    "string \<Rightarrow> json \<Rightarrow> (string \<times> string) list \<Rightarrow> state \<Rightarrow> (exn + unit) \<times> state" where
  "print_weather city_name data_weather param_current st =
     (case get data_weather ''current'' of
        Inl e \<Rightarrow> (Inl e, st)
      | Inr c \<Rightarrow>
          if c = JNull then (Inl (KeyError BadPayload), st)
          else
            (case get data_weather ''current_units'' of
               Inl e \<Rightarrow> (Inl e, st)
             | Inr us \<Rightarrow>
                 if us = JNull then (Inl (KeyError BadPayload), st)
                 else print_params data_weather param_current
                        (emit (Print (Header city_name)) st)))"

subsection \<open>weather\<close>

text \<open>
  The \<open>while True\<close> loop of lines 46 to 58, with \<open>coord\<close> for \<open>CITY_COORD[city]\<close> (the
  table never changes). It has no exit of its own: the function
  ends only when \<open>fetch_api\<close> or \<open>print_weather\<close> raises, and the result is then the
  exception with the state reached. \<open>None\<close> is the run that never ends.
\<close>

partial_function (option) weather_loop ::
    "net \<Rightarrow> string \<Rightarrow> int \<Rightarrow> (string \<times> string) list \<Rightarrow> real \<times> real \<Rightarrow> state
       \<Rightarrow> (exn \<times> state) option" where
  "weather_loop net city interval_sec param_current coord st =
     (case fetch_api net coord param_current st of
        (Inl e, st1) \<Rightarrow> Some (e, st1)
      | (Inr data_weather, st1) \<Rightarrow>
          (case print_weather (capitalize city) data_weather param_current st1 of
             (Inl e, st2) \<Rightarrow> Some (e, st2)
           | (Inr u, st2) \<Rightarrow>
               weather_loop net city interval_sec param_current coord
                 (emit (Sleep interval_sec) st2)))"

text \<open>
  Lines 35 to 44: \<open>city\<close> is rebound to its lower-case form, the default metrics are
  taken when none are given, and the city is looked up before anything else happens.
\<close>

definition weather ::
    "net \<Rightarrow> string \<Rightarrow> int \<Rightarrow> (string \<times> string) list option \<Rightarrow> state
       \<Rightarrow> (exn \<times> state) option" where
  "weather net city0 interval_sec param_current0 st =
     (let city = lower city0;
          param_current =
            (case param_current0 of None \<Rightarrow> PARAM_CURRENT_DEFAULT | Some pc \<Rightarrow> pc)
      in case map_of CITY_COORD city of
           None \<Rightarrow> Some (KeyError (NoCityData city), st)
         | Some coord \<Rightarrow> weather_loop net city interval_sec param_current coord st)"

text \<open>\<open>main\<close> of \<open>main.py\<close>: the city is fixed, the interval is the default 5.\<close>

definition main :: "net \<Rightarrow> (exn \<times> state) option" where
  "main net = weather net ''moscow'' 5 None init"

declare weather_loop.simps [code]

section \<open>Vocabulary of the properties\<close>

text \<open>
  How one call of \<open>client.get\<close> ends for \<open>fetch_api\<close>: with a failure one of the two
  handlers catches (a status error, or a body that does not parse), whose text is then
  printed, or with a parsed payload. A call that raises by itself is neither.
\<close>

definition caught_failure :: "string + response \<Rightarrow> string option" where
  "caught_failure a =
     (case a of
        Inl e \<Rightarrow> None
      | Inr r \<Rightarrow>
          (case status_error r of
             Some e \<Rightarrow> Some e
           | None \<Rightarrow> (case body r of Inl msg \<Rightarrow> Some msg | Inr data \<Rightarrow> None)))"

definition payload_of :: "string + response \<Rightarrow> json option" where
  "payload_of a =
     (case a of
        Inl e \<Rightarrow> None
      | Inr r \<Rightarrow>
          (case status_error r of
             Some e \<Rightarrow> None
           | None \<Rightarrow> (case body r of Inl msg \<Rightarrow> None | Inr data \<Rightarrow> Some data)))"

text \<open>The requests sent and the delays slept, read off a trace.\<close>

fun requests :: "event list \<Rightarrow> params list" where
  "requests [] = []"
| "requests (Request p # es) = p # requests es"
| "requests (e # es) = requests es"


text \<open>What one caught failure leaves in the trace.\<close>

definition failed_attempt :: "params \<Rightarrow> string \<Rightarrow> event list" where
  "failed_attempt p m = [Request p, Print (ErrorLine m), Sleep 3]"

definition request_params :: "real \<times> real \<Rightarrow> (string \<times> string) list \<Rightarrow> params" where
  "request_params city_coord param_current =
     \<lparr>latitude = fst city_coord, longitude = snd city_coord,
      current = join '','' (map fst param_current)\<rparr>"

text \<open>Reading a comma-joined parameter back: \<open>s.split(',')\<close>.\<close>

fun split_commas :: "string \<Rightarrow> string list" where
  "split_commas [] = [[]]"
| "split_commas (c # cs) =
     (if c = CHR '','' then [] # split_commas cs
      else (case split_commas cs of [] \<Rightarrow> [[c]] | w # ws \<Rightarrow> (c # w) # ws))"

text \<open>
  The line the specification asks for one metric, given the two sections of a payload:
  the formatted line when the value and the unit are both there, the diagnostic line
  otherwise.
\<close>

definition spec_metric_line ::
    "(string \<times> json) list \<Rightarrow> (string \<times> json) list \<Rightarrow> string \<times> string \<Rightarrow> line" where
  "spec_metric_line c u param =
     (case (map_of c (fst param), map_of u (fst param)) of
        (Some v, Some w) \<Rightarrow> MetricLine (capitalize (snd param)) v w
      | _ \<Rightarrow> MissingLine (fst param))"

text \<open>A \<open>dict\<close> without a key.\<close>

definition drop_key :: "string \<Rightarrow> (string \<times> json) list \<Rightarrow> (string \<times> json) list" where
  "drop_key k d = filter (\<lambda>kv. fst kv \<noteq> k) d"

subsection \<open>Sample networks and payloads\<close>

text \<open>
  \<open>failing_net\<close> answers every request with a failure: a body that does not parse
  at the second request, a status error at all others. \<open>flaky_net\<close> fails twice and
  then answers with the payload \<open>null\<close>. \<open>refusing_net\<close> never gives a response: the
  call raises. \<open>recovering_net\<close> refuses the first call and answers every later one
  with a payload. \<open>dropping_net\<close> answers four requests with a status error and
  refuses from the fifth on.
\<close>

definition failing_net :: net where
  "failing_net n =
     (if n = 1 then Inr \<lparr>status_error = None, body = Inl ''Expecting value''\<rparr>
      else Inr \<lparr>status_error = Some ''503'', body = Inl ''Expecting value''\<rparr>)"

definition flaky_net :: net where
  "flaky_net n =
     (if n < 2 then Inr \<lparr>status_error = Some ''503'', body = Inl ''Expecting value''\<rparr>
      else Inr \<lparr>status_error = None, body = Inr JNull\<rparr>)"

definition refusing_net :: net where
  "refusing_net n = Inl ''ConnectError''"

definition dropping_net :: net where
  "dropping_net n =
     (if n < 4 then Inr \<lparr>status_error = Some ''503'', body = Inl ''Expecting value''\<rparr>
      else Inl ''ConnectError'')"

definition moscow :: "real \<times> real" where
  "moscow = (55.751244, 37.618423)"

definition sample_units :: "(string \<times> json) list" where
  "sample_units = [(''temperature_2m'', JStr ''C''), (''pressure_msl'', JStr ''hPa'')]"

definition sample_payload :: "(string \<times> json) list" where
  "sample_payload =
     [(''current'', JObj [(''temperature_2m'', JFloat 5.2), (''relative_humidity_2m'', JInt 80)]),
      (''current_units'', JObj sample_units)]"

definition recovering_net :: net where
  "recovering_net n =
     (if n = 0 then Inl ''ConnectError''
      else Inr \<lparr>status_error = None, body = Inr (JObj sample_payload)\<rparr>)"

section \<open>The retry loop of fetch_api\<close>

lemma state_eta: "\<lparr>calls = calls st, trace = trace st\<rparr> = (st::state)"
  by (cases st) simp

lemma state_update: "(st::state)\<lparr>calls := c, trace := t\<rparr> = \<lparr>calls = c, trace = t\<rparr>"
  by (cases st) simp

lemma requests_append: "requests (xs @ ys) = requests xs @ requests ys"
  by (induction xs rule: requests.induct) simp_all


lemma requests_failed_attempts:
  "requests (concat (map (failed_attempt p) ms)) = replicate (length ms) p"
  by (induction ms) (simp_all add: failed_attempt_def)


text \<open>An attempt ends in exactly one of three ways.\<close>

lemma attempt_cases:
  obtains (raised) e where "a = Inl e"
    | (failed) m where "caught_failure a = Some m"
    | (parsed) d where "payload_of a = Some d"
proof (cases a)
  case (Inl e)
  then show ?thesis by (rule raised)
next
  case (Inr r)
  show ?thesis
  proof (cases "status_error r")
    case (Some e)
    with Inr have "caught_failure a = Some e" by (simp add: caught_failure_def)
    then show ?thesis by (rule failed)
  next
    case None
    show ?thesis
    proof (cases "body r")
      case (Inl msg)
      with Inr None have "caught_failure a = Some msg" by (simp add: caught_failure_def)
      then show ?thesis by (rule failed)
    next
      case (Inr d)
      with \<open>a = Inr r\<close> None have "payload_of a = Some d" by (simp add: payload_of_def)
      then show ?thesis by (rule parsed)
    qed
  qed
qed

text \<open>One turn of the loop, for each way the attempt can end.\<close>

lemma fetch_loop_done:
  "\<not> repeat_fetch < 5 \<Longrightarrow>
   fetch_loop net p repeat_fetch st = (Inl (ValueError NoWeatherData), st)"
  by (subst fetch_loop.simps) simp

lemma fetch_loop_raise:
  "repeat_fetch < 5 \<Longrightarrow> net (calls st) = Inl e \<Longrightarrow>
   fetch_loop net p repeat_fetch st =
     (Inl (HTTPError e), \<lparr>calls = Suc (calls st), trace = trace st @ [Request p]\<rparr>)"
  by (subst fetch_loop.simps) (simp add: client_get_def emit_def)

lemma fetch_loop_ok:
  "repeat_fetch < 5 \<Longrightarrow> payload_of (net (calls st)) = Some data \<Longrightarrow>
   fetch_loop net p repeat_fetch st =
     (Inr data, \<lparr>calls = Suc (calls st), trace = trace st @ [Request p]\<rparr>)"
  by (subst fetch_loop.simps)
     (auto simp: client_get_def emit_def payload_of_def split: sum.splits option.splits)

lemma fetch_loop_fail:
  "repeat_fetch < 5 \<Longrightarrow> caught_failure (net (calls st)) = Some m \<Longrightarrow>
   fetch_loop net p repeat_fetch st =
     fetch_loop net p (Suc repeat_fetch)
       \<lparr>calls = Suc (calls st), trace = trace st @ failed_attempt p m\<rparr>"
  by (subst fetch_loop.simps)
     (auto simp: client_get_def emit_def caught_failure_def failed_attempt_def state_update
           split: sum.splits option.splits)

text \<open>A run of caught failures, as long as the budget allows.\<close>

lemma fetch_loop_fails:
  "repeat_fetch + length ms \<le> 5 \<Longrightarrow>
   \<forall>i<length ms. caught_failure (net (calls st + i)) = Some (ms ! i) \<Longrightarrow>
   fetch_loop net p repeat_fetch st =
     fetch_loop net p (repeat_fetch + length ms)
       \<lparr>calls = calls st + length ms,
        trace = trace st @ concat (map (failed_attempt p) ms)\<rparr>"
proof (induction ms arbitrary: repeat_fetch st)
  case Nil
  then show ?case by (simp add: state_eta)
next
  case (Cons m ms)
  let ?st1 = "\<lparr>calls = Suc (calls st), trace = trace st @ failed_attempt p m\<rparr>"
  from Cons.prems have lt: "repeat_fetch < 5" and le: "Suc repeat_fetch + length ms \<le> 5"
    by simp_all
  from Cons.prems(2) have first: "caught_failure (net (calls st)) = Some m"
    by force
  have others: "\<forall>i<length ms. caught_failure (net (calls ?st1 + i)) = Some (ms ! i)"
  proof (intro allI impI)
    fix i assume "i < length ms"
    with Cons.prems(2) have "caught_failure (net (calls st + Suc i)) = Some ((m # ms) ! Suc i)"
      by (metis Suc_less_eq length_Cons)
    then show "caught_failure (net (calls ?st1 + i)) = Some (ms ! i)" by simp
  qed
  have "fetch_loop net p repeat_fetch st = fetch_loop net p (Suc repeat_fetch) ?st1"
    using lt first by (rule fetch_loop_fail)
  also have "\<dots> = fetch_loop net p (Suc repeat_fetch + length ms)
       \<lparr>calls = calls ?st1 + length ms,
        trace = trace ?st1 @ concat (map (failed_attempt p) ms)\<rparr>"
    using le others by (rule Cons.IH)
  finally show ?case by simp
qed

lemma fetch_api_loop:
  "fetch_api net coord pc st = fetch_loop net (request_params coord pc) 0 st"
  by (simp add: fetch_api_def request_params_def)

lemma fetch_api_then_ok:
  assumes "length ms < 5"
    and "\<forall>i<length ms. caught_failure (net (calls st + i)) = Some (ms ! i)"
    and "payload_of (net (calls st + length ms)) = Some data"
  shows "fetch_api net coord pc st =
           (Inr data,
            \<lparr>calls = calls st + length ms + 1,
             trace = trace st @ concat (map (failed_attempt (request_params coord pc)) ms)
                       @ [Request (request_params coord pc)]\<rparr>)"
proof -
  let ?p = "request_params coord pc"
  let ?st = "\<lparr>calls = calls st + length ms,
              trace = trace st @ concat (map (failed_attempt ?p) ms)\<rparr>"
  have "fetch_loop net ?p 0 st = fetch_loop net ?p (0 + length ms) ?st"
    using assms(1,2) by (intro fetch_loop_fails) simp_all
  also have "\<dots> = (Inr data, \<lparr>calls = Suc (calls ?st), trace = trace ?st @ [Request ?p]\<rparr>)"
    using assms(1,3) by (intro fetch_loop_ok) simp_all
  finally show ?thesis
    by (simp add: fetch_api_loop)
qed

lemma fetch_api_exhausted:
  assumes "length ms = 5"
    and "\<forall>i<length ms. caught_failure (net (calls st + i)) = Some (ms ! i)"
  shows "fetch_api net coord pc st =
           (Inl (ValueError NoWeatherData),
            \<lparr>calls = calls st + 5,
             trace = trace st @ concat (map (failed_attempt (request_params coord pc)) ms)\<rparr>)"
proof -
  let ?p = "request_params coord pc"
  let ?st = "\<lparr>calls = calls st + length ms,
              trace = trace st @ concat (map (failed_attempt ?p) ms)\<rparr>"
  have "fetch_loop net ?p 0 st = fetch_loop net ?p (0 + length ms) ?st"
    using assms by (intro fetch_loop_fails) simp_all
  also have "\<dots> = (Inl (ValueError NoWeatherData), ?st)"
    using assms(1) by (intro fetch_loop_done) simp
  finally show ?thesis
    using assms(1) by (simp add: fetch_api_loop)
qed

lemma fetch_api_then_raise:
  assumes "length ms < 5"
    and "\<forall>i<length ms. caught_failure (net (calls st + i)) = Some (ms ! i)"
    and "net (calls st + length ms) = Inl e"
  shows "fetch_api net coord pc st =
           (Inl (HTTPError e),
            \<lparr>calls = calls st + length ms + 1,
             trace = trace st @ concat (map (failed_attempt (request_params coord pc)) ms)
                       @ [Request (request_params coord pc)]\<rparr>)"
proof -
  let ?p = "request_params coord pc"
  let ?st = "\<lparr>calls = calls st + length ms,
              trace = trace st @ concat (map (failed_attempt ?p) ms)\<rparr>"
  have "fetch_loop net ?p 0 st = fetch_loop net ?p (0 + length ms) ?st"
    using assms(1,2) by (intro fetch_loop_fails) simp_all
  also have "\<dots> = (Inl (HTTPError e),
      \<lparr>calls = Suc (calls ?st), trace = trace ?st @ [Request ?p]\<rparr>)"
    using assms(1,3) by (intro fetch_loop_raise) simp_all
  finally show ?thesis
    by (simp add: fetch_api_loop)
qed

text \<open>
  Whatever the network does, the loop sends between one and five requests, all with the
  parameters it was given.
\<close>

lemma fetch_loop_requests:
  "calls st \<le> calls (snd (fetch_loop net p repeat_fetch st))
   \<and> (repeat_fetch < 5 \<longrightarrow> calls st < calls (snd (fetch_loop net p repeat_fetch st)))
   \<and> requests (trace (snd (fetch_loop net p repeat_fetch st))) =
       requests (trace st)
         @ replicate (calls (snd (fetch_loop net p repeat_fetch st)) - calls st) p"
proof (induction "5 - repeat_fetch" arbitrary: repeat_fetch st)
  case 0
  then show ?case by (simp add: fetch_loop_done)
next
  case (Suc n)
  then have lt: "repeat_fetch < 5" and n: "n = 5 - Suc repeat_fetch"
    by simp_all
  show ?case
  proof (cases "net (calls st)" rule: attempt_cases)
    case (raised e)
    with lt show ?thesis by (simp add: fetch_loop_raise requests_append)
  next
    case (parsed d)
    with lt show ?thesis by (simp add: fetch_loop_ok requests_append)
  next
    case (failed m)
    let ?st1 = "\<lparr>calls = Suc (calls st), trace = trace st @ failed_attempt p m\<rparr>"
    let ?st2 = "snd (fetch_loop net p (Suc repeat_fetch) ?st1)"
    have step: "fetch_loop net p repeat_fetch st = fetch_loop net p (Suc repeat_fetch) ?st1"
      using lt failed by (rule fetch_loop_fail)
    have ih: "calls ?st1 \<le> calls ?st2
        \<and> (Suc repeat_fetch < 5 \<longrightarrow> calls ?st1 < calls ?st2)
        \<and> requests (trace ?st2) = requests (trace ?st1) @ replicate (calls ?st2 - calls ?st1) p"
      using n by (rule Suc.hyps(1))
    have rq: "requests (trace ?st1) = requests (trace st) @ [p]"
      by (simp add: requests_append failed_attempt_def)
    from ih have "Suc (calls st) \<le> calls ?st2"
      by simp
    then have "calls ?st2 - calls st = Suc (calls ?st2 - calls ?st1)"
      by simp
    with ih rq show ?thesis
      by (simp add: step replicate_app_Cons_same)
  qed
qed




lemma dropping_net_fails:
  "\<forall>i<length [''503'', ''503'', ''503'', ''503''].
     caught_failure (dropping_net (calls init + i))
       = Some ([''503'', ''503'', ''503'', ''503''] ! i)"
  by (simp add: dropping_net_def caught_failure_def init_def nth_Cons')

lemma dropping_net_raises:
  "dropping_net (calls init + length [''503'', ''503'', ''503'', ''503'']) = Inl ''ConnectError''"
  by (simp add: dropping_net_def init_def)

lemma main_loop:
  "main net = weather_loop net ''moscow'' 5 PARAM_CURRENT_DEFAULT moscow init"
  by (simp add: main_def weather_def lower_def lower_char_def CITY_COORD_def moscow_def)

section \<open>Properties of fetch_api\<close>

subsection \<open>Failures the handlers catch\<close>

text \<open>
  When the first \<open>length ms\<close> attempts (fewer than 5) each get a response that fails
  inside the \<open>try\<close>, and the next one returns a payload, \<open>fetch_api\<close> returns that
  payload as it is, whatever its shape, after exactly \<open>length ms + 1\<close> requests.
\<close>

lemma handled_failures_then_success:
  assumes "length ms < 5"
    and "\<forall>i<length ms. caught_failure (net (calls st + i)) = Some (ms ! i)"
    and "payload_of (net (calls st + length ms)) = Some data"
  shows "fst (fetch_api net coord pc st) = Inr data
         \<and> calls (snd (fetch_api net coord pc st)) = calls st + (length ms + 1)
         \<and> requests (trace (snd (fetch_api net coord pc st)))
             = requests (trace st) @ replicate (length ms + 1) (request_params coord pc)"
  using fetch_api_then_ok [OF assms, of coord pc]
  by (simp add: requests_append requests_failed_attempts replicate_append_same)

text \<open>
  After five such failures in a row \<open>fetch_api\<close> raises \<open>ValueError\<close> with exactly five
  requests sent, and the polling loop ends with that exception in the same state.
\<close>

lemma five_handled_failures_fatal:
  assumes "length ms = 5"
    and "\<forall>i<length ms. caught_failure (net (calls st + i)) = Some (ms ! i)"
  shows "fst (fetch_api net coord pc st) = Inl (ValueError NoWeatherData)
         \<and> calls (snd (fetch_api net coord pc st)) = calls st + 5
         \<and> requests (trace (snd (fetch_api net coord pc st)))
             = requests (trace st) @ replicate 5 (request_params coord pc)
         \<and> weather_loop net city interval_sec pc coord st
             = Some (ValueError NoWeatherData, snd (fetch_api net coord pc st))"
proof -
  note eq = fetch_api_exhausted [OF assms, of coord pc]
  have "weather_loop net city interval_sec pc coord st
          = Some (ValueError NoWeatherData, snd (fetch_api net coord pc st))"
    by (subst weather_loop.simps) (simp add: eq)
  then show ?thesis
    using assms(1) by (simp add: eq requests_append requests_failed_attempts)
qed

subsection \<open>Failures that client.get raises\<close>

text \<open>
  C4 fails on the code: when the first attempt fails because \<open>client.get\<close> raises and
  the second attempt would return a payload, \<open>fetch_api\<close> does not reach the second
  attempt. It sends one request, not two, and ends with the \<open>HTTPError\<close> instead of
  returning the payload.
\<close>

theorem fetch_api_success_after_raise_lost:
  "payload_of (recovering_net 1) = Some (JObj sample_payload)
   \<and> fetch_api recovering_net moscow PARAM_CURRENT_DEFAULT init
       = (Inl (HTTPError ''ConnectError''),
          \<lparr>calls = 1, trace = [Request (request_params moscow PARAM_CURRENT_DEFAULT)]\<rparr>)
   \<and> fst (fetch_api recovering_net moscow PARAM_CURRENT_DEFAULT init)
       \<noteq> Inr (JObj sample_payload)
   \<and> length (requests (trace (snd (fetch_api recovering_net moscow PARAM_CURRENT_DEFAULT init))))
       \<noteq> 2"
proof -
  have eq: "fetch_api recovering_net moscow PARAM_CURRENT_DEFAULT init
       = (Inl (HTTPError ''ConnectError''),
          \<lparr>calls = 1, trace = [Request (request_params moscow PARAM_CURRENT_DEFAULT)]\<rparr>)"
    by (simp add: fetch_api_loop fetch_loop_raise recovering_net_def init_def)
  have "payload_of (recovering_net 1) = Some (JObj sample_payload)"
    by (simp add: recovering_net_def payload_of_def)
  with eq show ?thesis by simp
qed

text \<open>
  C5 fails on the code: with four status errors and a fifth attempt that fails because
  \<open>client.get\<close> raises, five attempts in a row have failed and five requests were sent,
  but \<open>fetch_api\<close> ends with the \<open>HTTPError\<close> of the fifth attempt and not with the
  \<open>ValueError\<close> of line 104; the process ends with that \<open>HTTPError\<close>.
\<close>

theorem five_failing_attempts_not_exhausted:
  "fetch_api dropping_net moscow PARAM_CURRENT_DEFAULT init
     = (Inl (HTTPError ''ConnectError''),
        \<lparr>calls = 5,
         trace = concat (replicate 4
                   (failed_attempt (request_params moscow PARAM_CURRENT_DEFAULT) ''503''))
                 @ [Request (request_params moscow PARAM_CURRENT_DEFAULT)]\<rparr>)
   \<and> fst (fetch_api dropping_net moscow PARAM_CURRENT_DEFAULT init)
       \<noteq> Inl (ValueError NoWeatherData)
   \<and> length (requests (trace (snd (fetch_api dropping_net moscow PARAM_CURRENT_DEFAULT init))))
       = 5
   \<and> main dropping_net
       = Some (HTTPError ''ConnectError'',
               snd (fetch_api dropping_net moscow PARAM_CURRENT_DEFAULT init))"
proof -
  have eq: "fetch_api dropping_net moscow PARAM_CURRENT_DEFAULT init
     = (Inl (HTTPError ''ConnectError''),
        \<lparr>calls = 5,
         trace = concat (replicate 4
                   (failed_attempt (request_params moscow PARAM_CURRENT_DEFAULT) ''503''))
                 @ [Request (request_params moscow PARAM_CURRENT_DEFAULT)]\<rparr>)"
    using fetch_api_then_raise [OF _ dropping_net_fails dropping_net_raises,
            of moscow PARAM_CURRENT_DEFAULT]
    by (simp add: init_def numeral_eq_Suc)
  have "main dropping_net
       = Some (HTTPError ''ConnectError'',
               snd (fetch_api dropping_net moscow PARAM_CURRENT_DEFAULT init))"
    unfolding main_loop by (subst weather_loop.simps) (simp add: eq)
  with eq show ?thesis
    by (simp add: requests_append failed_attempt_def numeral_eq_Suc)
qed

text \<open>
  C1 fails on the code: a failure of the transport that \<open>client.get\<close> itself raises
  leaves \<open>fetch_api\<close> at once. With a network that refuses the connection, the first
  attempt is the only one: no error line, no sleep, no second request, and the process
  ends with the \<open>HTTPError\<close>.
\<close>

theorem fetch_api_transport_failure_escapes:
  "fetch_api refusing_net moscow PARAM_CURRENT_DEFAULT init
     = (Inl (HTTPError ''ConnectError''),
        \<lparr>calls = 1, trace = [Request (request_params moscow PARAM_CURRENT_DEFAULT)]\<rparr>)
   \<and> main refusing_net
     = Some (HTTPError ''ConnectError'',
        \<lparr>calls = 1, trace = [Request (request_params moscow PARAM_CURRENT_DEFAULT)]\<rparr>)"
proof -
  have eq: "fetch_api refusing_net moscow PARAM_CURRENT_DEFAULT init
     = (Inl (HTTPError ''ConnectError''),
        \<lparr>calls = 1, trace = [Request (request_params moscow PARAM_CURRENT_DEFAULT)]\<rparr>)"
    by (simp add: fetch_api_loop fetch_loop_raise refusing_net_def init_def)
  have "main refusing_net
     = Some (HTTPError ''ConnectError'',
        \<lparr>calls = 1, trace = [Request (request_params moscow PARAM_CURRENT_DEFAULT)]\<rparr>)"
    unfolding main_loop by (subst weather_loop.simps) (simp add: eq)
  with eq show ?thesis by simp
qed

subsection \<open>The delays\<close>




subsection \<open>The request parameters\<close>

lemma split_commas_plain: "CHR '','' \<notin> set k \<Longrightarrow> split_commas k = [k]"
  by (induction k) auto

lemma split_commas_field:
  "CHR '','' \<notin> set k \<Longrightarrow> split_commas (k @ CHR '','' # rest) = k # split_commas rest"
  by (induction k) auto

lemma split_commas_join:
  "ks \<noteq> [] \<Longrightarrow> \<forall>k\<in>set ks. CHR '','' \<notin> set k \<Longrightarrow> split_commas (join '','' ks) = ks"
proof (induction "'',''" ks rule: join.induct)
  case 1
  then show ?case by simp
next
  case (2 x)
  then show ?case by (simp add: split_commas_plain)
next
  case (3 x y ys)
  then show ?case by (simp add: split_commas_field)
qed

text \<open>
  C6: whatever the network does, every request \<open>fetch_api\<close> sends (there is at least one)
  carries as \<open>current\<close> the provider keys of the metrics joined with commas; and when the
  metrics are not empty and no key holds a comma, splitting that parameter at the commas
  gives the keys back, in their order and with their repetitions.
\<close>

theorem fetch_api_current_param:
  "requests (trace (snd (fetch_api net coord pc st)))
     = requests (trace st)
        @ replicate (calls (snd (fetch_api net coord pc st)) - calls st)
            \<lparr>latitude = fst coord, longitude = snd coord,
             current = join '','' (map fst pc)\<rparr>
   \<and> calls st < calls (snd (fetch_api net coord pc st))
   \<and> (pc \<noteq> [] \<and> (\<forall>k\<in>set (map fst pc). CHR '','' \<notin> set k)
        \<longrightarrow> split_commas (join '','' (map fst pc)) = map fst pc)"
  using fetch_loop_requests [of st net "request_params coord pc" 0]
    split_commas_join [of "map fst pc"]
  by (simp add: fetch_api_loop request_params_def)

theorem fetch_api_current_param_witness:
  "requests (trace (snd (fetch_api refusing_net moscow
       [(''pressure_msl'', ''a''), (''temperature_2m'', ''b''), (''pressure_msl'', ''c'')] init)))
     = [\<lparr>latitude = fst moscow, longitude = snd moscow,
         current = ''pressure_msl,temperature_2m,pressure_msl''\<rparr>]
   \<and> split_commas ''pressure_msl,temperature_2m,pressure_msl''
       = [''pressure_msl'', ''temperature_2m'', ''pressure_msl'']"
proof -
  have one: "calls (snd (fetch_api refusing_net moscow
       [(''pressure_msl'', ''a''), (''temperature_2m'', ''b''), (''pressure_msl'', ''c'')] init)) = 1"
    by (simp add: fetch_api_loop fetch_loop_raise refusing_net_def init_def)
  show ?thesis
    using fetch_api_current_param [of refusing_net moscow
       "[(''pressure_msl'', ''a''), (''temperature_2m'', ''b''), (''pressure_msl'', ''c'')]" init]
      one
    by (simp add: init_def)
qed

section \<open>Properties of print_weather\<close>

lemma map_of_drop_key: "map_of (drop_key k d) k' = (if k' = k then None else map_of d k')"
  by (induction d) (auto simp: drop_key_def)

text \<open>The check of line 122 on a \<open>dict\<close>.\<close>

lemma print_weather_rejects:
  "dict_get d ''current'' = JNull \<or> dict_get d ''current_units'' = JNull \<Longrightarrow>
   print_weather city_name (JObj d) param_current st = (Inl (KeyError BadPayload), st)"
  by (auto simp: print_weather_def)

text \<open>
  C7: a payload without the key \<open>current\<close> or without the key \<open>current_units\<close> makes
  \<open>print_weather\<close> raise the \<open>KeyError\<close> of line 123 with the state as it was: nothing
  is printed, neither the header nor a line of a metric.
\<close>

theorem print_weather_section_missing:
  assumes "map_of d ''current'' = None \<or> map_of d ''current_units'' = None"
  shows "print_weather city_name (JObj d) param_current st = (Inl (KeyError BadPayload), st)"
  using assms by (intro print_weather_rejects) (auto simp: dict_get_def)

theorem print_weather_section_missing_witness:
  "print_weather ''Moscow'' (JObj [(''current_units'', JObj sample_units)])
     PARAM_CURRENT_DEFAULT init = (Inl (KeyError BadPayload), init)
   \<and> print_weather ''Moscow'' (JObj [(''current'', JObj [(''temperature_2m'', JInt 5)])])
     PARAM_CURRENT_DEFAULT init = (Inl (KeyError BadPayload), init)"
  using print_weather_section_missing
          [of "[(''current_units'', JObj sample_units)]" "''Moscow''" PARAM_CURRENT_DEFAULT init]
    print_weather_section_missing
          [of "[(''current'', JObj [(''temperature_2m'', JInt 5)])]" "''Moscow''"
              PARAM_CURRENT_DEFAULT init]
  by simp

text \<open>
  C10: a payload in which \<open>current\<close> or \<open>current_units\<close> is bound to \<open>null\<close> is treated
  as the payload without that key: the same \<open>KeyError\<close>, nothing printed, and the same
  result as for the payload with the key removed.
\<close>

theorem print_weather_section_null:
  assumes "k = ''current'' \<or> k = ''current_units''"
    and "map_of d k = Some JNull"
  shows "print_weather city_name (JObj d) param_current st = (Inl (KeyError BadPayload), st)
         \<and> print_weather city_name (JObj (drop_key k d)) param_current st
             = print_weather city_name (JObj d) param_current st"
proof -
  from assms have "dict_get d ''current'' = JNull \<or> dict_get d ''current_units'' = JNull"
    by (auto simp: dict_get_def)
  then have null: "print_weather city_name (JObj d) param_current st
      = (Inl (KeyError BadPayload), st)"
    by (rule print_weather_rejects)
  from assms(1) have "map_of (drop_key k d) ''current'' = None
      \<or> map_of (drop_key k d) ''current_units'' = None"
    by (auto simp: map_of_drop_key)
  then have "dict_get (drop_key k d) ''current'' = JNull
      \<or> dict_get (drop_key k d) ''current_units'' = JNull"
    by (auto simp: dict_get_def)
  then have "print_weather city_name (JObj (drop_key k d)) param_current st
      = (Inl (KeyError BadPayload), st)"
    by (rule print_weather_rejects)
  with null show ?thesis by simp
qed

theorem print_weather_section_null_witness:
  "print_weather ''Moscow''
     (JObj [(''current'', JNull), (''current_units'', JObj sample_units)])
     PARAM_CURRENT_DEFAULT init = (Inl (KeyError BadPayload), init)
   \<and> print_weather ''Moscow'' (JObj [(''current_units'', JObj sample_units)])
     PARAM_CURRENT_DEFAULT init = (Inl (KeyError BadPayload), init)"
  using print_weather_section_null
          [of "''current''" "[(''current'', JNull), (''current_units'', JObj sample_units)]"
              "''Moscow''" PARAM_CURRENT_DEFAULT init]
  by (simp add: drop_key_def)

text \<open>With both sections in place, one metric gives its formatted line or a \<open>KeyError\<close>.\<close>

lemma metric_line_valid:
  "map_of d ''current'' = Some (JObj c) \<Longrightarrow> map_of d ''current_units'' = Some (JObj u) \<Longrightarrow>
   metric_line (JObj d) k t =
     (case map_of c k of
        None \<Rightarrow> Inl (KeyError (MissingKey k))
      | Some v \<Rightarrow>
          (case map_of u k of
             None \<Rightarrow> Inl (KeyError (MissingKey k))
           | Some w \<Rightarrow> Inr (MetricLine (capitalize t) v w)))"
  by (simp add: metric_line_def split: option.splits)

lemma print_params_valid:
  "map_of d ''current'' = Some (JObj c) \<Longrightarrow> map_of d ''current_units'' = Some (JObj u) \<Longrightarrow>
   print_params (JObj d) param_current st =
     (Inr (), \<lparr>calls = calls st,
               trace = trace st @ map (\<lambda>param. Print (spec_metric_line c u param)) param_current\<rparr>)"
proof (induction param_current arbitrary: st)
  case Nil
  then show ?case by (simp add: state_eta)
next
  case (Cons param rest)
  obtain k t where param: "param = (k, t)" by (cases param)
  have "print_params (JObj d) (param # rest) st =
          print_params (JObj d) rest (emit (Print (spec_metric_line c u param)) st)"
    using Cons.prems
    by (simp add: param metric_line_valid spec_metric_line_def split: option.splits)
  then show ?case
    using Cons.IH [OF Cons.prems] by (simp add: emit_def)
qed

text \<open>
  C8: for a payload whose \<open>current\<close> and \<open>current_units\<close> are both mappings,
  \<open>print_weather\<close> returns normally after printing the header and then, for each metric in
  the order given, the formatted line when the metric's value and unit are both there and
  the diagnostic line otherwise; a missing key does not stop the metrics after it.
\<close>

theorem print_weather_valid:
  assumes "map_of d ''current'' = Some (JObj c)"
    and "map_of d ''current_units'' = Some (JObj u)"
  shows "print_weather city_name (JObj d) param_current st =
           (Inr (),
            \<lparr>calls = calls st,
             trace = trace st @ Print (Header city_name)
                       # map (\<lambda>param. Print (spec_metric_line c u param)) param_current\<rparr>)"
  using assms
  by (simp add: print_weather_def dict_get_def print_params_valid emit_def)

theorem print_weather_valid_witness:
  "print_weather ''Moscow'' (JObj sample_payload) PARAM_CURRENT_DEFAULT init =
     (Inr (),
      \<lparr>calls = 0,
       trace = [Print (Header ''Moscow''),
                Print (MetricLine ''Temperatura'' (JFloat 5.2) (JStr ''C'')),
                Print (MissingLine ''relative_humidity_2m''),
                Print (MissingLine ''pressure_msl'')]\<rparr>)"
proof -
  have cap: "capitalize ''temperatura'' = ''Temperatura''"
    by code_simp
  show ?thesis
    using print_weather_valid
          [of sample_payload
              "[(''temperature_2m'', JFloat 5.2), (''relative_humidity_2m'', JInt 80)]"
              sample_units "''Moscow''" PARAM_CURRENT_DEFAULT init]
    by (simp add: sample_payload_def sample_units_def PARAM_CURRENT_DEFAULT_def
          spec_metric_line_def init_def cap del: capitalize.simps)
qed

section \<open>Properties of weather\<close>

lemma weather_unknown:
  "map_of CITY_COORD (lower city) = None \<Longrightarrow>
   weather net city interval_sec param_current st
     = Some (KeyError (NoCityData (lower city)), st)"
  by (simp add: weather_def)

lemma lower_Atlantis: "lower ''Atlantis'' = ''atlantis''"
  by code_simp

lemma atlantis_unknown: "map_of CITY_COORD (lower ''Atlantis'') = None"
  by (simp add: lower_Atlantis CITY_COORD_def)

text \<open>
  C2, as the specification states it, fails: for the unknown city \<open>Atlantis\<close> the
  \<open>KeyError\<close> carries \<open>atlantis\<close>, the lower-case form, since line 35 rebinds \<open>city\<close>
  before line 42 builds the message.
\<close>

theorem weather_not_found_counterexample:
  "weather refusing_net ''Atlantis'' 5 None init
     = Some (KeyError (NoCityData ''atlantis''), init)
   \<and> weather refusing_net ''Atlantis'' 5 None init
     \<noteq> Some (KeyError (NoCityData ''Atlantis''), init)"
  by (simp add: weather_unknown [OF atlantis_unknown] lower_Atlantis)

text \<open>
  C2, amended: for every city whose lower-case form is not in the table, \<open>weather\<close> raises
  a \<open>KeyError\<close> that carries the lower-case form of the name, and returns no coordinate;
  the state is as it was.
\<close>

theorem weather_not_found:
  assumes "map_of CITY_COORD (lower city) = None"
  shows "weather net city interval_sec param_current st
           = Some (KeyError (NoCityData (lower city)), st)"
  using assms by (simp add: weather_def)

theorem weather_not_found_witness:
  "weather failing_net ''Atlantis'' 5 None init
     = Some (KeyError (NoCityData ''atlantis''), init)"
  using weather_not_found [OF atlantis_unknown, of failing_net 5 None init]
  by (simp add: lower_Atlantis)

text \<open>
  C9: for a city that is not in the table, \<open>weather\<close> ends at once with the \<open>KeyError\<close>
  and without a single call of \<open>client.get\<close>: the call counter and the requests of the
  trace are those of the start, and the result is the same over every network.
\<close>

theorem weather_unknown_city_no_request:
  assumes "map_of CITY_COORD (lower city) = None"
  shows "map_option fst (weather net city interval_sec param_current st)
           = Some (KeyError (NoCityData (lower city)))
         \<and> map_option (\<lambda>r. calls (snd r)) (weather net city interval_sec param_current st)
             = Some (calls st)
         \<and> map_option (\<lambda>r. requests (trace (snd r)))
             (weather net city interval_sec param_current init) = Some []
         \<and> weather net' city interval_sec param_current st
             = weather net city interval_sec param_current st"
  using assms by (simp add: weather_unknown init_def)

theorem weather_unknown_city_no_request_witness:
  "map_option (\<lambda>r. requests (trace (snd r))) (weather flaky_net ''Atlantis'' 5 None init)
     = Some []
   \<and> map_option (\<lambda>r. calls (snd r)) (weather flaky_net ''Atlantis'' 5 None init) = Some 0"
  using weather_unknown_city_no_request [OF atlantis_unknown, of flaky_net 5 None init]
  by (simp add: init_def)

end
